theory Spec2Isabelle
  imports Complex_Main "HOL-Library.AList"
begin

section \<open>Python values and exceptions\<close>

text \<open>
  The upstream provider's reply is whatever \<open>response.json()\<close> decodes: any JSON value.
  A JSON object is the Python dict it decodes to, kept as an association list that is read
  with \<open>map_of\<close>. Python's integers are unbounded and its floats are taken as reals:
  the code only tests numbers for truth and passes them on.
\<close>

datatype json =
    JNull
  | JBool bool
  | JNum int
  | JFloat real
  | JStr string
  | JList "json list"
  | JObj "(string \<times> json) list"

text \<open>Python exceptions, each with the message that \<open>str(e)\<close> returns.\<close>

datatype exn =
    ValueError string
  | TypeError string
  | AttributeError string
  | KeyError string
  | IndexError string
  | NotImplementedError string
  | ImportError string
  | Exception string
  | RequestException string


text \<open>Truth value of a decoded JSON value, as Python's \<open>if content:\<close> tests it.\<close>

fun truthy :: "json \<Rightarrow> bool" where
  "truthy JNull = False"
| "truthy (JBool b) = b"
| "truthy (JNum n) = (n \<noteq> 0)"
| "truthy (JFloat x) = (x \<noteq> 0)"
| "truthy (JStr s) = (s \<noteq> [])"
| "truthy (JList xs) = (xs \<noteq> [])"
| "truthy (JObj kvs) = (kvs \<noteq> [])"

fun type_name :: "json \<Rightarrow> string" where
  "type_name JNull = ''NoneType''"
| "type_name (JBool b) = ''bool''"
| "type_name (JNum n) = ''int''"
| "type_name (JFloat x) = ''float''"
| "type_name (JStr s) = ''str''"
| "type_name (JList xs) = ''list''"
| "type_name (JObj kvs) = ''dict''"

definition quoted :: "string \<Rightarrow> string" where
  "quoted s = [CHR 0x27] @ s @ [CHR 0x27]"

text \<open>\<open>d.get(key, default)\<close>: only a dict has the method.\<close>

fun py_get :: "json \<Rightarrow> string \<Rightarrow> json \<Rightarrow> exn + json" where
  "py_get (JObj kvs) k d = Inr (case map_of kvs k of None \<Rightarrow> d | Some v \<Rightarrow> v)"
| "py_get v k d =
     Inl (AttributeError (quoted (type_name v) @ '' object has no attribute '' @ quoted ''get''))"

text \<open>
  \<open>choices[0]\<close>: the first element of a list, the first character of a string, a
  KeyError on a dict (its keys are strings), a TypeError on anything else.
\<close>

fun py_index0 :: "json \<Rightarrow> exn + json" where
  "py_index0 (JList (x # xs)) = Inr x"
| "py_index0 (JList []) = Inl (IndexError ''list index out of range'')"
| "py_index0 (JStr (c # cs)) = Inr (JStr [c])"
| "py_index0 (JStr []) = Inl (IndexError ''string index out of range'')"
| "py_index0 (JObj kvs) = Inl (KeyError ''0'')"
| "py_index0 v =
     Inl (TypeError (quoted (type_name v) @ '' object is not subscriptable''))"

definition bind_exn :: "exn + 'a \<Rightarrow> ('a \<Rightarrow> exn + 'b) \<Rightarrow> exn + 'b" where
  "bind_exn r f = (case r of Inl e \<Rightarrow> Inl e | Inr v \<Rightarrow> f v)"

section \<open>The schema entities the chat service uses\<close>

text \<open>
  Modelled from the spec: the entities of the schema module, which the chat service
  imports. Each carries the fields of the spec's data model that \<open>chat_service.py\<close>
  reads and writes, and its constructor is taken to accept the values the code hands it:
  the usage counts and the body of the generated message are stored as the provider sent
  them. The members of \<open>FinishReason\<close>, \<open>Role\<close> and \<open>RouterServiceType\<close> are the
  ones the code names; a response's finish reason is one of them or absent.
\<close>

datatype Role = SYSTEM | USER | ASSISTANT

datatype FinishReason = STOP | LENGTH | CONTENT_FILTER

datatype RouterServiceType = CHAT | SEARCH

record 'c Message =
  role :: Role
  content :: 'c

record GenerationOptions =
  max_tokens :: "int option"
  temperature :: "real option"
  top_p :: "real option"
  stop_sequences :: "string list option"

record ChatUsage =
  prompt_tokens :: json
  completion_tokens :: json
  total_tokens :: json

record ChatResponse =
  response_id :: nat
  model :: string
  message :: "json Message"
  finish_reason :: "FinishReason option"
  usage :: ChatUsage
  provider_info :: "(string \<times> string) list"
  cost :: real

record ServiceItem =
  service_type :: RouterServiceType
  service_pricing :: real

record PublishedMetadata =
  md_services :: "ServiceItem list"

text \<open>
  The configuration: \<open>metadata\<close> is \<open>None\<close> when \<open>metadata_path.exists()\<close> is false and
  otherwise holds what \<open>PublishedMetadata.from_path\<close> loads.
\<close>

record RouterConfig =
  enable_chat :: bool
  enable_search :: bool
  metadata :: "PublishedMetadata option"
  project_name :: string

text \<open>Modelled from the spec: the value of a role (system, user, assistant), lowercased.\<close>

fun role_value_lower :: "Role \<Rightarrow> string" where
  "role_value_lower SYSTEM = ''system''"
| "role_value_lower USER = ''user''"
| "role_value_lower ASSISTANT = ''assistant''"

section \<open>The chat service\<close>

record CustomChatService =
  config :: RouterConfig
  api_key :: string
  allowed_models :: "string list"
  app_name :: string

text \<open>
  The constructor: the key is the argument or else the environment variable, and a
  missing key raises.
\<close>

definition CustomChatService_init ::
  "string option \<Rightarrow> RouterConfig \<Rightarrow> string option \<Rightarrow> exn + CustomChatService" where
  "CustomChatService_init getenv_key cfg key =
     (let k = (case key of Some s \<Rightarrow> (if s \<noteq> [] then Some s else getenv_key)
                         | None \<Rightarrow> getenv_key)
      in case k of
           Some s \<Rightarrow>
             (if s \<noteq> [] then
                Inr \<lparr>config = cfg, api_key = s, allowed_models = [''deepseek-chat''],
                     app_name = project_name cfg\<rparr>
              else Inl (ValueError ''OpenRouter API key is required. Set OPENROUTER_API_KEY environment variable or pass api_key parameter.''))
         | None \<Rightarrow> Inl (ValueError ''OpenRouter API key is required. Set OPENROUTER_API_KEY environment variable or pass api_key parameter.''))"

definition validate_model :: "CustomChatService \<Rightarrow> string \<Rightarrow> string" where
  "validate_model svc m =
     (let m' = (if m \<notin> set (allowed_models svc) then ''deepseek-chat'' else m);
          model_mapping = [(''deepseek-chat'', ''deepseek/deepseek-chat''),
                           (''deepseek-coder'', ''deepseek/deepseek-coder''),
                           (''deepseek-v3'', ''deepseek/deepseek-v3'')]
      in case map_of model_mapping m' of None \<Rightarrow> m' | Some full \<Rightarrow> full)"

definition map_finish_reason :: "string \<Rightarrow> FinishReason option" where
  "map_finish_reason fr =
     map_of [(''stop'', STOP), (''length'', LENGTH), (''content_filter'', CONTENT_FILTER)] fr"

text \<open>
  The same call on whatever the provider put under \<open>finish_reason\<close>: a number or a
  boolean is a key the table does not hold, a list or a dict cannot be hashed.
\<close>

fun map_finish_reason_json :: "json \<Rightarrow> exn + FinishReason option" where
  "map_finish_reason_json (JStr s) = Inr (map_finish_reason s)"
| "map_finish_reason_json (JList xs) = Inl (TypeError (''unhashable type: '' @ quoted ''list''))"
| "map_finish_reason_json (JObj kvs) = Inl (TypeError (''unhashable type: '' @ quoted ''dict''))"
| "map_finish_reason_json v = Inr None"

text \<open>The pricing property: falling off the end of the loop returns Python's \<open>None\<close>.\<close>

fun pricing_loop :: "ServiceItem list \<Rightarrow> real option" where
  "pricing_loop [] = None"
| "pricing_loop (s # ss) =
     (if service_type s = CHAT then Some (service_pricing s) else pricing_loop ss)"

definition pricing :: "CustomChatService \<Rightarrow> real option" where
  "pricing svc =
     (case metadata (config svc) of
        None \<Rightarrow> Some 0
      | Some md \<Rightarrow> pricing_loop (md_services md))"

text \<open>The request payload: an absent key is \<open>None\<close>.\<close>

record payload =
  p_model :: string
  p_messages :: "(string \<times> string) list"
  p_max_tokens :: "int option"
  p_temperature :: "real option"
  p_top_p :: "real option"
  p_stop :: "string list option"
  p_num_predict :: "int option"

definition set_if_some :: "'a option \<Rightarrow> 'a option \<Rightarrow> 'a option" where
  "set_if_some new old = (case new of None \<Rightarrow> old | Some v \<Rightarrow> Some v)"

definition build_payload ::
  "CustomChatService \<Rightarrow> string \<Rightarrow> string Message list \<Rightarrow> GenerationOptions option \<Rightarrow> payload" where
  "build_payload svc m msgs options =
     (let p0 = \<lparr>p_model = validate_model svc m,
                p_messages = map (\<lambda>msg. (role_value_lower (role msg), content msg)) msgs,
                p_max_tokens = Some 1000, p_temperature = None, p_top_p = None,
                p_stop = None, p_num_predict = None\<rparr>
      in case options of
           None \<Rightarrow> p0
         | Some opts \<Rightarrow>
             (let p1 = p0\<lparr>p_max_tokens := set_if_some (max_tokens opts) (p_max_tokens p0),
                          p_temperature := set_if_some (temperature opts) (p_temperature p0),
                          p_top_p := set_if_some (top_p opts) (p_top_p p0),
                          p_stop := set_if_some (stop_sequences opts) (p_stop p0)\<rparr>
              in p1\<lparr>p_temperature := set_if_some (temperature opts) (p_temperature p1),
                     p_top_p := set_if_some (top_p opts) (p_top_p p1),
                     p_num_predict := set_if_some (max_tokens opts) (p_num_predict p1),
                     p_stop := (case stop_sequences opts of
                                  Some (s # ss) \<Rightarrow> Some (s # ss)
                                | _ \<Rightarrow> p_stop p1)\<rparr>))"

text \<open>
  What lies outside the service: the provider's answer to a request (it raises or
  returns the decoded body) and the identifier \<open>uuid4()\<close> draws.
\<close>

record world =
  make_chat_request :: "payload \<Rightarrow> exn + json"
  uuid4 :: nat

text \<open>
  What a call does to its collaborators, in order. The accounting client is external:
  \<open>delegated_transfer\<close> is taken to open the transaction when the \<open>with\<close> block is
  entered and to release it when the block is left, on every path, without hiding an
  exception; \<open>confirm\<close> is taken to return.
\<close>

datatype event =
    OpenTransaction string real string string string
  | UpstreamCall payload
  | ConfirmTransaction
  | ExitTransaction

text \<open>Lines 191 to 227 of \<open>generate_chat\<close>: the reply becomes a \<open>ChatResponse\<close>.\<close>

definition normalize_response :: "world \<Rightarrow> string \<Rightarrow> json \<Rightarrow> real \<Rightarrow> exn + ChatResponse" where
  "normalize_response w m response_data query_cost =
     bind_exn (py_get response_data ''usage'' (JObj [])) (\<lambda>usage_data.
     bind_exn (py_get usage_data ''prompt_tokens'' (JNum 0)) (\<lambda>pt.
     bind_exn (py_get usage_data ''completion_tokens'' (JNum 0)) (\<lambda>ct.
     bind_exn (py_get usage_data ''total_tokens'' (JNum 0)) (\<lambda>tt.
     bind_exn (py_get response_data ''choices'' (JList [JObj []])) (\<lambda>choices.
     bind_exn (if truthy choices then py_index0 choices else Inr (JObj [])) (\<lambda>choice.
     bind_exn (py_get choice ''message'' (JObj [])) (\<lambda>message_data.
     bind_exn (py_get message_data ''content'' (JStr [])) (\<lambda>generated.
     bind_exn (py_get choice ''finish_reason'' JNull) (\<lambda>finish_reason_str.
     bind_exn (if truthy finish_reason_str then map_finish_reason_json finish_reason_str
               else Inr None) (\<lambda>fr.
     Inr \<lparr>response_id = uuid4 w, model = m,
          message = \<lparr>role = ASSISTANT, content = generated\<rparr>,
          finish_reason = fr,
          usage = \<lparr>prompt_tokens = pt, completion_tokens = ct, total_tokens = tt\<rparr>,
          provider_info = [(''provider'', ''deepseek''), (''model'', m)],
          cost = query_cost\<rparr>))))))))))"

definition token_given :: "string option \<Rightarrow> bool" where
  "token_given tok = (case tok of None \<Rightarrow> False | Some t \<Rightarrow> t \<noteq> [])"

text \<open>
  \<open>generate_chat\<close>: the result (an exception, re-raised unchanged by both handlers, or the
  response) and the events of the call. Comparing a \<open>None\<close> price with 0 is a TypeError.
  The metadata file is read each time \<open>self.pricing\<close> is evaluated; it is taken not to
  change during one call.
\<close>

definition generate_chat ::
  "world \<Rightarrow> CustomChatService \<Rightarrow> string \<Rightarrow> string Message list \<Rightarrow> string \<Rightarrow> string option \<Rightarrow>
   GenerationOptions option \<Rightarrow> (exn + ChatResponse) \<times> event list" where
  "generate_chat w svc m msgs user_email transaction_token options =
     (let pl = build_payload svc m msgs options in
      case pricing svc of
        None \<Rightarrow>
          (Inl (TypeError (quoted ''>'' @ '' not supported between instances of '' @
                           quoted ''NoneType'' @ '' and '' @ quoted ''int'')), [])
      | Some price \<Rightarrow>
          if price > 0 \<and> token_given transaction_token then
            (let opened = [OpenTransaction user_email price (the transaction_token)
                             (app_name svc) ''/chat'', UpstreamCall pl]
             in case make_chat_request w pl of
                  Inl e \<Rightarrow> (Inl e, opened @ [ExitTransaction])
                | Inr reply \<Rightarrow>
                    if truthy reply then
                      (normalize_response w m reply price,
                       opened @ [ConfirmTransaction, ExitTransaction])
                    else
                      (normalize_response w m reply 0, opened @ [ExitTransaction]))
          else if price > 0 \<and> \<not> token_given transaction_token then
            (Inl (ValueError ''Transaction token is required for paid services. Please provide a transaction token.''), [])
          else
            (case make_chat_request w pl of
               Inl e \<Rightarrow> (Inl e, [UpstreamCall pl])
             | Inr reply \<Rightarrow> (normalize_response w m reply 0, [UpstreamCall pl])))"

section \<open>The router\<close>

text \<open>
  The factory builds the chat service from the configuration alone, so the key comes from
  the environment. The search implementation lives outside these source files: its
  factory and its \<open>search_documents\<close> are parameters.
\<close>

definition create_chat_service :: "string option \<Rightarrow> RouterConfig \<Rightarrow> exn + CustomChatService" where
  "create_chat_service getenv_key cfg = CustomChatService_init getenv_key cfg None"

record 's SyftLLMRouter =
  router_config :: RouterConfig
  chat_service :: "CustomChatService option"
  search_service :: "'s option"

definition SyftLLMRouter_init ::
  "string option \<Rightarrow> (RouterConfig \<Rightarrow> exn + 's) \<Rightarrow> RouterConfig \<Rightarrow> exn + 's SyftLLMRouter" where
  "SyftLLMRouter_init getenv_key create_search_service cfg =
     bind_exn (if enable_chat cfg
               then bind_exn (create_chat_service getenv_key cfg) (\<lambda>c. Inr (Some c))
               else Inr None) (\<lambda>chat.
     bind_exn (if enable_search cfg
               then bind_exn (create_search_service cfg) (\<lambda>s. Inr (Some s))
               else Inr None) (\<lambda>search.
     Inr \<lparr>router_config = cfg, chat_service = chat, search_service = search\<rparr>))"

text \<open>The methods of the services that a router call reaches, in order.\<close>

datatype capability_call = GenerateChatCall | SearchDocumentsCall

definition SyftLLMRouter_generate_chat ::
  "world \<Rightarrow> 's SyftLLMRouter \<Rightarrow> string \<Rightarrow> string Message list \<Rightarrow> string \<Rightarrow> string option \<Rightarrow>
   GenerationOptions option \<Rightarrow> (exn + ChatResponse) \<times> capability_call list \<times> event list" where
  "SyftLLMRouter_generate_chat w r m msgs user_email transaction_token options =
     (case chat_service r of
        None \<Rightarrow> (Inl (NotImplementedError ''Chat functionality is not enabled''), [], [])
      | Some svc \<Rightarrow>
          (let out = generate_chat w svc m msgs user_email transaction_token options
           in (fst out, [GenerateChatCall], snd out)))"

definition SyftLLMRouter_search_documents ::
  "('s \<Rightarrow> string \<Rightarrow> string \<Rightarrow> 'o option \<Rightarrow> string option \<Rightarrow> exn + 'r) \<Rightarrow> 's SyftLLMRouter \<Rightarrow>
   string \<Rightarrow> string \<Rightarrow> 'o option \<Rightarrow> string option \<Rightarrow> (exn + 'r) \<times> capability_call list" where
  "SyftLLMRouter_search_documents search_documents r user_email query options transaction_token =
     (case search_service r of
        None \<Rightarrow> (Inl (NotImplementedError ''Search functionality is not enabled''), [])
      | Some svc \<Rightarrow>
          (search_documents svc user_email query options transaction_token,
           [SearchDocumentsCall]))"

section \<open>The service manager\<close>

datatype RunStatus = STOPPED | RUNNING | FAILED

record ServiceState =
  status :: RunStatus
  url :: "string option"
  port :: "int option"
  pid :: "int option"
  started_at :: "nat option"
  error :: "string option"



record RouterState =
  router_status :: RunStatus
  services :: "(string \<times> ServiceState) list"













section \<open>Concrete services and worlds\<close>

text \<open>
  Three configurations: a published chat price of 2, no metadata file, and a metadata
  file that lists a search price only. A world either answers every request with one
  reply or raises one exception.
\<close>

definition paid_config :: RouterConfig where
  "paid_config =
     \<lparr>enable_chat = True, enable_search = False,
      metadata = Some \<lparr>md_services = [\<lparr>service_type = SEARCH, service_pricing = 1\<rparr>,
                                       \<lparr>service_type = CHAT, service_pricing = 2\<rparr>]\<rparr>,
      project_name = ''router''\<rparr>"

definition free_config :: RouterConfig where
  "free_config = \<lparr>enable_chat = True, enable_search = False, metadata = None,
                   project_name = ''router''\<rparr>"

definition search_only_config :: RouterConfig where
  "search_only_config =
     \<lparr>enable_chat = True, enable_search = False,
      metadata = Some \<lparr>md_services = [\<lparr>service_type = SEARCH, service_pricing = 1\<rparr>]\<rparr>,
      project_name = ''router''\<rparr>"

definition service_of :: "RouterConfig \<Rightarrow> CustomChatService" where
  "service_of cfg = \<lparr>config = cfg, api_key = ''key'', allowed_models = [''deepseek-chat''],
                      app_name = project_name cfg\<rparr>"

definition replying_world :: "json \<Rightarrow> world" where
  "replying_world reply = \<lparr>make_chat_request = (\<lambda>p. Inr reply), uuid4 = 7\<rparr>"

definition failing_world :: "exn \<Rightarrow> world" where
  "failing_world e = \<lparr>make_chat_request = (\<lambda>p. Inl e), uuid4 = 7\<rparr>"

definition chat_reply :: "string \<Rightarrow> json" where
  "chat_reply fr =
     JObj [(''choices'', JList [JObj [(''message'', JObj [(''content'', JStr ''hi'')]),
                                      (''finish_reason'', JStr fr)]])]"

definition hello :: "string Message list" where
  "hello = [\<lparr>role = USER, content = ''hello''\<rparr>]"


section \<open>Facts about the chat service\<close>

lemma pricing_paid_service: "pricing (service_of paid_config) = Some 2"
  by (simp add: pricing_def service_of_def paid_config_def)

lemma pricing_free_service: "pricing (service_of free_config) = Some 0"
  by (simp add: pricing_def service_of_def free_config_def)

lemma generate_chat_priced:
  assumes "pricing svc = Some price" and "0 < price" and "tok = Some t" and "t \<noteq> []"
  shows "generate_chat w svc m msgs email tok opts =
     (case make_chat_request w (build_payload svc m msgs opts) of
        Inl e \<Rightarrow>
          (Inl e, [OpenTransaction email price t (app_name svc) ''/chat'',
                   UpstreamCall (build_payload svc m msgs opts), ExitTransaction])
      | Inr reply \<Rightarrow>
          if truthy reply then
            (normalize_response w m reply price,
             [OpenTransaction email price t (app_name svc) ''/chat'',
              UpstreamCall (build_payload svc m msgs opts), ConfirmTransaction,
              ExitTransaction])
          else
            (normalize_response w m reply 0,
             [OpenTransaction email price t (app_name svc) ''/chat'',
              UpstreamCall (build_payload svc m msgs opts), ExitTransaction]))"
  using assms by (simp add: generate_chat_def token_given_def Let_def split: sum.splits)

lemma generate_chat_free:
  assumes "pricing svc = Some price" and "\<not> 0 < price"
  shows "generate_chat w svc m msgs email tok opts =
     (case make_chat_request w (build_payload svc m msgs opts) of
        Inl e \<Rightarrow> (Inl e, [UpstreamCall (build_payload svc m msgs opts)])
      | Inr reply \<Rightarrow>
          (normalize_response w m reply 0, [UpstreamCall (build_payload svc m msgs opts)]))"
  using assms by (simp add: generate_chat_def Let_def split: sum.splits)

lemma generate_chat_unpriced:
  assumes "pricing svc = None"
  shows "snd (generate_chat w svc m msgs email tok opts) = []"
    and "\<exists>msg. fst (generate_chat w svc m msgs email tok opts) = Inl (TypeError msg)"
  using assms by (simp_all add: generate_chat_def Let_def)

lemma generate_chat_no_token:
  assumes "pricing svc = Some price" and "0 < price" and "\<not> token_given tok"
  shows "generate_chat w svc m msgs email tok opts =
     (Inl (ValueError ''Transaction token is required for paid services. Please provide a transaction token.''), [])"
  using assms by (simp add: generate_chat_def Let_def)

lemma normalize_response_cost: "normalize_response w m reply c = Inr r \<Longrightarrow> cost r = c"
  by (auto simp: normalize_response_def bind_exn_def split: sum.splits if_splits)

lemma normalize_response_empty_object:
  "normalize_response w m (JObj []) c =
     Inr \<lparr>response_id = uuid4 w, model = m,
          message = \<lparr>role = ASSISTANT, content = JStr []\<rparr>, finish_reason = None,
          usage = \<lparr>prompt_tokens = JNum 0, completion_tokens = JNum 0, total_tokens = JNum 0\<rparr>,
          provider_info = [(''provider'', ''deepseek''), (''model'', m)], cost = c\<rparr>"
  by (simp add: normalize_response_def bind_exn_def)

lemma normalize_response_not_object:
  assumes "\<forall>kvs. reply \<noteq> JObj kvs"
  shows "\<exists>msg. normalize_response w m reply c = Inl (AttributeError msg)"
  using assms by (cases reply) (simp_all add: normalize_response_def bind_exn_def)

lemma falsy_cases: "\<not> truthy reply \<Longrightarrow> reply \<noteq> JObj [] \<Longrightarrow> \<forall>kvs. reply \<noteq> JObj kvs"
  by (cases reply) auto

lemma normalize_response_well_shaped:
  assumes "py_get (JObj kvs) ''usage'' (JObj []) = Inr (JObj ukvs)"
    and "py_get (JObj kvs) ''choices'' (JList [JObj []]) = Inr choices"
    and "(if truthy choices then py_index0 choices else Inr (JObj [])) = Inr (JObj ckvs)"
    and "py_get (JObj ckvs) ''message'' (JObj []) = Inr (JObj mkvs)"
    and "py_get (JObj ckvs) ''finish_reason'' JNull = Inr frs"
    and "(if truthy frs then map_finish_reason_json frs else Inr None) = Inr fr"
  shows "normalize_response w m (JObj kvs) c =
     Inr \<lparr>response_id = uuid4 w, model = m,
          message = \<lparr>role = ASSISTANT,
                     content = (case map_of mkvs ''content'' of None \<Rightarrow> JStr [] | Some v \<Rightarrow> v)\<rparr>,
          finish_reason = fr,
          usage = \<lparr>prompt_tokens =
                     (case map_of ukvs ''prompt_tokens'' of None \<Rightarrow> JNum 0 | Some v \<Rightarrow> v),
                   completion_tokens =
                     (case map_of ukvs ''completion_tokens'' of None \<Rightarrow> JNum 0 | Some v \<Rightarrow> v),
                   total_tokens =
                     (case map_of ukvs ''total_tokens'' of None \<Rightarrow> JNum 0 | Some v \<Rightarrow> v)\<rparr>,
          provider_info = [(''provider'', ''deepseek''), (''model'', m)], cost = c\<rparr>"
proof -
  have u: "(case map_of kvs ''usage'' of None \<Rightarrow> JObj [] | Some v \<Rightarrow> v) = JObj ukvs"
    using assms(1) by simp
  have ch: "(case map_of kvs ''choices'' of None \<Rightarrow> JList [JObj []] | Some v \<Rightarrow> v) = choices"
    using assms(2) by simp
  have g: "(case map_of ckvs ''message'' of None \<Rightarrow> JObj [] | Some v \<Rightarrow> v) = JObj mkvs"
    using assms(4) by simp
  have f: "(case map_of ckvs ''finish_reason'' of None \<Rightarrow> JNull | Some v \<Rightarrow> v) = frs"
    using assms(5) by simp
  show ?thesis
    by (simp add: normalize_response_def bind_exn_def u ch g f assms(3) assms(6))
qed

lemma priced_success_events:
  "(pricing svc = Some price \<and> 0 < price \<and> tok = Some t \<and> t \<noteq> [] \<and>
    make_chat_request w (build_payload svc m msgs opts) = Inr reply \<and> truthy reply \<longrightarrow>
      snd (generate_chat w svc m msgs email tok opts) =
        [OpenTransaction email price t (app_name svc) ''/chat'',
         UpstreamCall (build_payload svc m msgs opts), ConfirmTransaction, ExitTransaction] \<and>
      fst (generate_chat w svc m msgs email tok opts) = normalize_response w m reply price \<and>
      (\<forall>r. fst (generate_chat w svc m msgs email tok opts) = Inr r \<longrightarrow> cost r = price)) \<and>
   (\<forall>r. fst (generate_chat w svc m msgs email tok opts) = Inr r \<and> cost r \<noteq> 0 \<longrightarrow>
      (\<exists>p t'. pricing svc = Some p \<and> 0 < p \<and> tok = Some t' \<and> cost r = p \<and>
         snd (generate_chat w svc m msgs email tok opts) =
           [OpenTransaction email p t' (app_name svc) ''/chat'',
            UpstreamCall (build_payload svc m msgs opts), ConfirmTransaction,
            ExitTransaction]))"
proof (intro conjI impI allI)
  assume h: "pricing svc = Some price \<and> 0 < price \<and> tok = Some t \<and> t \<noteq> [] \<and>
    make_chat_request w (build_payload svc m msgs opts) = Inr reply \<and> truthy reply"
  then have eq: "generate_chat w svc m msgs email tok opts =
      (normalize_response w m reply price,
       [OpenTransaction email price t (app_name svc) ''/chat'',
        UpstreamCall (build_payload svc m msgs opts), ConfirmTransaction, ExitTransaction])"
    by (simp add: generate_chat_priced)
  show "snd (generate_chat w svc m msgs email tok opts) =
        [OpenTransaction email price t (app_name svc) ''/chat'',
         UpstreamCall (build_payload svc m msgs opts), ConfirmTransaction, ExitTransaction]"
    using eq by simp
  show "fst (generate_chat w svc m msgs email tok opts) = normalize_response w m reply price"
    using eq by simp
  fix r assume "fst (generate_chat w svc m msgs email tok opts) = Inr r"
  then show "cost r = price" using eq by (simp add: normalize_response_cost)
next
  fix r
  assume a: "fst (generate_chat w svc m msgs email tok opts) = Inr r \<and> cost r \<noteq> 0"
  show "\<exists>p t'. pricing svc = Some p \<and> 0 < p \<and> tok = Some t' \<and> cost r = p \<and>
         snd (generate_chat w svc m msgs email tok opts) =
           [OpenTransaction email p t' (app_name svc) ''/chat'',
            UpstreamCall (build_payload svc m msgs opts), ConfirmTransaction,
            ExitTransaction]"
  proof (cases "pricing svc")
    case None
    then show ?thesis using a generate_chat_unpriced(2)[of svc w m msgs email tok opts] by auto
  next
    case (Some p)
    show ?thesis
    proof (cases "0 < p")
      case False
      have "generate_chat w svc m msgs email tok opts =
        (case make_chat_request w (build_payload svc m msgs opts) of
           Inl e \<Rightarrow> (Inl e, [UpstreamCall (build_payload svc m msgs opts)])
         | Inr reply \<Rightarrow>
            (normalize_response w m reply 0, [UpstreamCall (build_payload svc m msgs opts)]))"
        by (rule generate_chat_free[OF Some False])
      then have "\<exists>reply. normalize_response w m reply 0 = Inr r"
        using a by (cases "make_chat_request w (build_payload svc m msgs opts)") auto
      then have "cost r = 0" by (auto dest: normalize_response_cost)
      then show ?thesis using a by simp
    next
      case True
      show ?thesis
      proof (cases "token_given tok")
        case False
        then show ?thesis using a Some True by (simp add: generate_chat_no_token)
      next
        case tg: True
        then obtain t' where t': "tok = Some t'" "t' \<noteq> []"
          by (auto simp: token_given_def split: option.splits)
        note eq = generate_chat_priced[OF Some True t']
        show ?thesis
        proof (cases "make_chat_request w (build_payload svc m msgs opts)")
          case (Inl e)
          then show ?thesis using a eq by simp
        next
          case (Inr reply)
          show ?thesis
          proof (cases "truthy reply")
            case False
            then have "normalize_response w m reply 0 = Inr r" using a eq Inr by simp
            then have "cost r = 0" by (rule normalize_response_cost)
            then show ?thesis using a by simp
          next
            case tr: True
            then have "normalize_response w m reply p = Inr r" using a eq Inr by simp
            then have "cost r = p" by (rule normalize_response_cost)
            moreover have "snd (generate_chat w svc m msgs email tok opts) =
               [OpenTransaction email p t' (app_name svc) ''/chat'',
                UpstreamCall (build_payload svc m msgs opts), ConfirmTransaction,
                ExitTransaction]" using eq Inr tr by simp
            ultimately show ?thesis using Some True t'(1) by blast
          qed
        qed
      qed
    qed
  qed
qed


text \<open>
  C1 as the code has it. A priced call with a token whose provider returns a non-empty
  result opens one transaction for the price and confirms it once, before the result is
  read. The call then returns a response, whose cost is the price, when the result is a
  JSON object whose usage, first choice and message are objects (or left out) and whose
  finish reason can be looked up; the result of the call is in every case what
  normalization makes of the reply. A returned response has a nonzero cost only when the
  call went this way. A token is supplied when it is a non-empty string, which is what
  the code tests.
\<close>

theorem priced_success_confirms_once:
  "(pricing svc = Some price \<and> 0 < price \<and> tok = Some t \<and> t \<noteq> [] \<and>
    make_chat_request w (build_payload svc m msgs opts) = Inr reply \<and> truthy reply \<longrightarrow>
      snd (generate_chat w svc m msgs email tok opts) =
        [OpenTransaction email price t (app_name svc) ''/chat'',
         UpstreamCall (build_payload svc m msgs opts), ConfirmTransaction, ExitTransaction] \<and>
      fst (generate_chat w svc m msgs email tok opts) = normalize_response w m reply price \<and>
      (reply = JObj kvs \<and>
       py_get (JObj kvs) ''usage'' (JObj []) = Inr (JObj ukvs) \<and>
       py_get (JObj kvs) ''choices'' (JList [JObj []]) = Inr choices \<and>
       (if truthy choices then py_index0 choices else Inr (JObj [])) = Inr (JObj ckvs) \<and>
       py_get (JObj ckvs) ''message'' (JObj []) = Inr (JObj mkvs) \<and>
       py_get (JObj ckvs) ''finish_reason'' JNull = Inr frs \<and>
       (if truthy frs then map_finish_reason_json frs else Inr None) = Inr fr \<longrightarrow>
         fst (generate_chat w svc m msgs email tok opts) =
           Inr \<lparr>response_id = uuid4 w, model = m,
                message = \<lparr>role = ASSISTANT,
                           content = (case map_of mkvs ''content'' of
                                        None \<Rightarrow> JStr [] | Some v \<Rightarrow> v)\<rparr>,
                finish_reason = fr,
                usage = \<lparr>prompt_tokens =
                           (case map_of ukvs ''prompt_tokens'' of
                              None \<Rightarrow> JNum 0 | Some v \<Rightarrow> v),
                         completion_tokens =
                           (case map_of ukvs ''completion_tokens'' of
                              None \<Rightarrow> JNum 0 | Some v \<Rightarrow> v),
                         total_tokens =
                           (case map_of ukvs ''total_tokens'' of
                              None \<Rightarrow> JNum 0 | Some v \<Rightarrow> v)\<rparr>,
                provider_info = [(''provider'', ''deepseek''), (''model'', m)],
                cost = price\<rparr>)) \<and>
   (\<forall>r. fst (generate_chat w svc m msgs email tok opts) = Inr r \<and> cost r \<noteq> 0 \<longrightarrow>
      (\<exists>p t'. pricing svc = Some p \<and> 0 < p \<and> tok = Some t' \<and> cost r = p \<and>
         snd (generate_chat w svc m msgs email tok opts) =
           [OpenTransaction email p t' (app_name svc) ''/chat'',
            UpstreamCall (build_payload svc m msgs opts), ConfirmTransaction,
            ExitTransaction]))"
proof (intro conjI impI)
  assume h: "pricing svc = Some price \<and> 0 < price \<and> tok = Some t \<and> t \<noteq> [] \<and>
    make_chat_request w (build_payload svc m msgs opts) = Inr reply \<and> truthy reply"
  note ev = priced_success_events[THEN conjunct1, rule_format, OF h]
  show "snd (generate_chat w svc m msgs email tok opts) =
        [OpenTransaction email price t (app_name svc) ''/chat'',
         UpstreamCall (build_payload svc m msgs opts), ConfirmTransaction, ExitTransaction]"
    using ev by blast
  show r: "fst (generate_chat w svc m msgs email tok opts) = normalize_response w m reply price"
    using ev by blast
  assume sh: "reply = JObj kvs \<and>
       py_get (JObj kvs) ''usage'' (JObj []) = Inr (JObj ukvs) \<and>
       py_get (JObj kvs) ''choices'' (JList [JObj []]) = Inr choices \<and>
       (if truthy choices then py_index0 choices else Inr (JObj [])) = Inr (JObj ckvs) \<and>
       py_get (JObj ckvs) ''message'' (JObj []) = Inr (JObj mkvs) \<and>
       py_get (JObj ckvs) ''finish_reason'' JNull = Inr frs \<and>
       (if truthy frs then map_finish_reason_json frs else Inr None) = Inr fr"
  have "normalize_response w m (JObj kvs) price =
           Inr \<lparr>response_id = uuid4 w, model = m,
                message = \<lparr>role = ASSISTANT,
                           content = (case map_of mkvs ''content'' of
                                        None \<Rightarrow> JStr [] | Some v \<Rightarrow> v)\<rparr>,
                finish_reason = fr,
                usage = \<lparr>prompt_tokens =
                           (case map_of ukvs ''prompt_tokens'' of
                              None \<Rightarrow> JNum 0 | Some v \<Rightarrow> v),
                         completion_tokens =
                           (case map_of ukvs ''completion_tokens'' of
                              None \<Rightarrow> JNum 0 | Some v \<Rightarrow> v),
                         total_tokens =
                           (case map_of ukvs ''total_tokens'' of
                              None \<Rightarrow> JNum 0 | Some v \<Rightarrow> v)\<rparr>,
                provider_info = [(''provider'', ''deepseek''), (''model'', m)],
                cost = price\<rparr>"
    using sh by (intro normalize_response_well_shaped) blast+
  then show "fst (generate_chat w svc m msgs email tok opts) =
           Inr \<lparr>response_id = uuid4 w, model = m,
                message = \<lparr>role = ASSISTANT,
                           content = (case map_of mkvs ''content'' of
                                        None \<Rightarrow> JStr [] | Some v \<Rightarrow> v)\<rparr>,
                finish_reason = fr,
                usage = \<lparr>prompt_tokens =
                           (case map_of ukvs ''prompt_tokens'' of
                              None \<Rightarrow> JNum 0 | Some v \<Rightarrow> v),
                         completion_tokens =
                           (case map_of ukvs ''completion_tokens'' of
                              None \<Rightarrow> JNum 0 | Some v \<Rightarrow> v),
                         total_tokens =
                           (case map_of ukvs ''total_tokens'' of
                              None \<Rightarrow> JNum 0 | Some v \<Rightarrow> v)\<rparr>,
                provider_info = [(''provider'', ''deepseek''), (''model'', m)],
                cost = price\<rparr>"
    using r sh by simp
next
  show "\<forall>r. fst (generate_chat w svc m msgs email tok opts) = Inr r \<and> cost r \<noteq> 0 \<longrightarrow>
      (\<exists>p t'. pricing svc = Some p \<and> 0 < p \<and> tok = Some t' \<and> cost r = p \<and>
         snd (generate_chat w svc m msgs email tok opts) =
           [OpenTransaction email p t' (app_name svc) ''/chat'',
            UpstreamCall (build_payload svc m msgs opts), ConfirmTransaction,
            ExitTransaction])"
    by (rule priced_success_events[THEN conjunct2])
qed

theorem priced_success_confirms_once_witness:
  "generate_chat (replying_world (chat_reply ''stop'')) (service_of paid_config)
     ''deepseek-chat'' hello ''a@b.c'' (Some ''abc'') None =
   (Inr \<lparr>response_id = 7, model = ''deepseek-chat'',
         message = \<lparr>role = ASSISTANT, content = JStr ''hi''\<rparr>, finish_reason = Some STOP,
         usage = \<lparr>prompt_tokens = JNum 0, completion_tokens = JNum 0, total_tokens = JNum 0\<rparr>,
         provider_info = [(''provider'', ''deepseek''), (''model'', ''deepseek-chat'')],
         cost = 2\<rparr>,
    [OpenTransaction ''a@b.c'' 2 ''abc'' ''router'' ''/chat'',
     UpstreamCall (build_payload (service_of paid_config) ''deepseek-chat'' hello None),
     ConfirmTransaction, ExitTransaction]) \<and>
   (\<exists>p t'. pricing (service_of paid_config) = Some p \<and> 0 < p \<and> Some ''abc'' = Some t' \<and>
      (2::real) = p \<and>
      snd (generate_chat (replying_world (chat_reply ''stop'')) (service_of paid_config)
             ''deepseek-chat'' hello ''a@b.c'' (Some ''abc'') None) =
        [OpenTransaction ''a@b.c'' p t' ''router'' ''/chat'',
         UpstreamCall (build_payload (service_of paid_config) ''deepseek-chat'' hello None),
         ConfirmTransaction, ExitTransaction])"
proof -
  let ?r = "\<lparr>response_id = 7, model = ''deepseek-chat'',
         message = \<lparr>role = ASSISTANT, content = JStr ''hi''\<rparr>, finish_reason = Some STOP,
         usage = \<lparr>prompt_tokens = JNum 0, completion_tokens = JNum 0, total_tokens = JNum 0\<rparr>,
         provider_info = [(''provider'', ''deepseek''), (''model'', ''deepseek-chat'')],
         cost = 2\<rparr>"
  let ?choice = "[(''message'', JObj [(''content'', JStr ''hi'')]),
                  (''finish_reason'', JStr ''stop'')]"
  let ?kvs = "[(''choices'', JList [JObj ?choice])]"
  have h: "pricing (service_of paid_config) = Some 2 \<and> (0::real) < 2 \<and>
           Some ''abc'' = Some ''abc'' \<and> ''abc'' \<noteq> [] \<and>
           make_chat_request (replying_world (chat_reply ''stop''))
             (build_payload (service_of paid_config) ''deepseek-chat'' hello None) =
             Inr (chat_reply ''stop'') \<and> truthy (chat_reply ''stop'')"
    by (simp add: pricing_paid_service replying_world_def chat_reply_def)
  have sh: "chat_reply ''stop'' = JObj ?kvs \<and>
       py_get (JObj ?kvs) ''usage'' (JObj []) = Inr (JObj []) \<and>
       py_get (JObj ?kvs) ''choices'' (JList [JObj []]) = Inr (JList [JObj ?choice]) \<and>
       (if truthy (JList [JObj ?choice]) then py_index0 (JList [JObj ?choice])
        else Inr (JObj [])) = Inr (JObj ?choice) \<and>
       py_get (JObj ?choice) ''message'' (JObj []) = Inr (JObj [(''content'', JStr ''hi'')]) \<and>
       py_get (JObj ?choice) ''finish_reason'' JNull = Inr (JStr ''stop'') \<and>
       (if truthy (JStr ''stop'') then map_finish_reason_json (JStr ''stop'') else Inr None) =
         Inr (Some STOP)"
    by (simp add: chat_reply_def map_finish_reason_def)
  have app: "app_name (service_of paid_config) = ''router''"
    by (simp add: service_of_def paid_config_def)
  have id: "uuid4 (replying_world (chat_reply ''stop'')) = 7"
    by (simp add: replying_world_def)
  note c = priced_success_confirms_once[THEN conjunct1, rule_format, OF h, of "''a@b.c''"]
  have f: "fst (generate_chat (replying_world (chat_reply ''stop'')) (service_of paid_config)
     ''deepseek-chat'' hello ''a@b.c'' (Some ''abc'') None) = Inr ?r"
    using c[THEN conjunct2, THEN conjunct2, rule_format, OF sh] id by simp
  have t: "snd (generate_chat (replying_world (chat_reply ''stop''))
     (service_of paid_config) ''deepseek-chat'' hello ''a@b.c'' (Some ''abc'') None) =
     [OpenTransaction ''a@b.c'' 2 ''abc'' ''router'' ''/chat'',
      UpstreamCall (build_payload (service_of paid_config) ''deepseek-chat'' hello None),
      ConfirmTransaction, ExitTransaction]"
    using c[THEN conjunct1] app by simp
  have nz: "fst (generate_chat (replying_world (chat_reply ''stop'')) (service_of paid_config)
     ''deepseek-chat'' hello ''a@b.c'' (Some ''abc'') None) = Inr ?r \<and> cost ?r \<noteq> 0"
    using f by simp
  have d: "\<exists>p t'. pricing (service_of paid_config) = Some p \<and> 0 < p \<and>
      Some ''abc'' = Some t' \<and> cost ?r = p \<and>
      snd (generate_chat (replying_world (chat_reply ''stop'')) (service_of paid_config)
             ''deepseek-chat'' hello ''a@b.c'' (Some ''abc'') None) =
        [OpenTransaction ''a@b.c'' p t' (app_name (service_of paid_config)) ''/chat'',
         UpstreamCall (build_payload (service_of paid_config) ''deepseek-chat'' hello None),
         ConfirmTransaction, ExitTransaction]"
    by (rule priced_success_confirms_once[THEN conjunct2, rule_format, OF nz])
  have e: "generate_chat (replying_world (chat_reply ''stop'')) (service_of paid_config)
     ''deepseek-chat'' hello ''a@b.c'' (Some ''abc'') None =
     (Inr ?r,
      [OpenTransaction ''a@b.c'' 2 ''abc'' ''router'' ''/chat'',
       UpstreamCall (build_payload (service_of paid_config) ''deepseek-chat'' hello None),
       ConfirmTransaction, ExitTransaction])"
    using f t by (simp only: prod_eq_iff fst_conv snd_conv simp_thms)
  have d': "\<exists>p t'. pricing (service_of paid_config) = Some p \<and> 0 < p \<and>
      Some ''abc'' = Some t' \<and> (2::real) = p \<and>
      snd (generate_chat (replying_world (chat_reply ''stop'')) (service_of paid_config)
             ''deepseek-chat'' hello ''a@b.c'' (Some ''abc'') None) =
        [OpenTransaction ''a@b.c'' p t' ''router'' ''/chat'',
         UpstreamCall (build_payload (service_of paid_config) ''deepseek-chat'' hello None),
         ConfirmTransaction, ExitTransaction]"
    using d by (simp add: app)
  show ?thesis by (rule conjI[OF e d'])
qed

text \<open>
  C1 as the spec words it fails when the provider returns the array \<open>[1]\<close>: the result is
  not empty, so the transaction is confirmed, and reading it raises; no response is
  returned.
\<close>

theorem priced_confirmed_then_raises_counterexample:
  "generate_chat (replying_world (JList [JNum 1])) (service_of paid_config)
     ''deepseek-chat'' hello ''a@b.c'' (Some ''abc'') None =
   (Inl (AttributeError (quoted ''list'' @ '' object has no attribute '' @ quoted ''get'')),
    [OpenTransaction ''a@b.c'' 2 ''abc'' ''router'' ''/chat'',
     UpstreamCall \<lparr>p_model = ''deepseek/deepseek-chat'', p_messages = [(''user'', ''hello'')],
                    p_max_tokens = Some 1000, p_temperature = None, p_top_p = None,
                    p_stop = None, p_num_predict = None\<rparr>,
     ConfirmTransaction, ExitTransaction])"
proof -
  have pos: "(0::real) < 2" by simp
  have ne: "''abc'' \<noteq> []" by simp
  have app: "app_name (service_of paid_config) = ''router''"
    by (simp add: service_of_def paid_config_def)
  have up: "\<And>p. make_chat_request (replying_world (JList [JNum 1])) p = Inr (JList [JNum 1])"
    by (simp add: replying_world_def)
  have pl: "build_payload (service_of paid_config) ''deepseek-chat'' hello None =
      \<lparr>p_model = ''deepseek/deepseek-chat'', p_messages = [(''user'', ''hello'')],
       p_max_tokens = Some 1000, p_temperature = None, p_top_p = None,
       p_stop = None, p_num_predict = None\<rparr>"
    by (simp add: build_payload_def validate_model_def service_of_def Let_def hello_def)
  have n: "normalize_response (replying_world (JList [JNum 1])) ''deepseek-chat''
             (JList [JNum 1]) 2 =
           Inl (AttributeError (quoted ''list'' @ '' object has no attribute '' @ quoted ''get''))"
    by (simp add: normalize_response_def bind_exn_def)
  show ?thesis
    by (simp add: generate_chat_priced[OF pricing_paid_service pos refl ne] up n app pl)
qed

text \<open>
  C2. A priced call with a token whose provider call raises ends with that same exception,
  and its transaction is opened and released but never confirmed.
\<close>

theorem priced_upstream_failure_unconfirmed:
  assumes "pricing svc = Some price" and "0 < price" and "tok = Some t" and "t \<noteq> []"
    and "make_chat_request w (build_payload svc m msgs opts) = Inl e"
  shows "generate_chat w svc m msgs email tok opts =
           (Inl e, [OpenTransaction email price t (app_name svc) ''/chat'',
                    UpstreamCall (build_payload svc m msgs opts), ExitTransaction]) \<and>
         ConfirmTransaction \<notin> set (snd (generate_chat w svc m msgs email tok opts))"
  using assms by (simp add: generate_chat_priced)

theorem priced_upstream_failure_unconfirmed_witness:
  "generate_chat (failing_world (RequestException ''502 Server Error''))
     (service_of paid_config) ''deepseek-chat'' hello ''a@b.c'' (Some ''abc'') None =
   (Inl (RequestException ''502 Server Error''),
    [OpenTransaction ''a@b.c'' 2 ''abc'' ''router'' ''/chat'',
     UpstreamCall (build_payload (service_of paid_config) ''deepseek-chat'' hello None),
     ExitTransaction])"
proof -
  have up: "make_chat_request (failing_world (RequestException ''502 Server Error''))
              (build_payload (service_of paid_config) ''deepseek-chat'' hello None) =
            Inl (RequestException ''502 Server Error'')"
    by (simp add: failing_world_def)
  have app: "app_name (service_of paid_config) = ''router''"
    by (simp add: service_of_def paid_config_def)
  have ne: "''abc'' \<noteq> []" by simp
  have pos: "(0::real) < 2" by simp
  show ?thesis
    using priced_upstream_failure_unconfirmed[OF pricing_paid_service pos refl ne up,
            of "''a@b.c''"] app
    by simp
qed

text \<open>
  C3. A priced call without a token (none, or the empty string) fails with the error that
  asks for a transaction token, a \<open>ValueError\<close> in the code, before anything is sent
  upstream and without a transaction.
\<close>

theorem priced_without_token_rejected:
  assumes "pricing svc = Some price" and "0 < price" and "tok = None \<or> tok = Some []"
  shows "generate_chat w svc m msgs email tok opts =
           (Inl (ValueError ''Transaction token is required for paid services. Please provide a transaction token.''), [])"
proof -
  have "\<not> token_given tok" using assms(3) by (auto simp: token_given_def)
  then show ?thesis using assms(1,2) by (simp add: generate_chat_no_token)
qed

theorem priced_without_token_rejected_witness:
  "generate_chat (replying_world (chat_reply ''stop'')) (service_of paid_config)
     ''deepseek-chat'' hello ''a@b.c'' None None =
   (Inl (ValueError ''Transaction token is required for paid services. Please provide a transaction token.''), [])"
proof -
  have pos: "(0::real) < 2" by simp
  have tk: "(None :: string option) = None \<or> (None :: string option) = Some []" by simp
  show ?thesis
    by (rule priced_without_token_rejected[OF pricing_paid_service pos tk])
qed

lemma generate_chat_result:
  assumes "pricing svc = Some price" and "price \<le> 0 \<or> token_given tok"
  shows "fst (generate_chat w svc m msgs email tok opts) =
     (case make_chat_request w (build_payload svc m msgs opts) of
        Inl e \<Rightarrow> Inl e
      | Inr reply \<Rightarrow>
          normalize_response w m reply (if 0 < price \<and> truthy reply then price else 0))"
    and "UpstreamCall (build_payload svc m msgs opts) \<in>
           set (snd (generate_chat w svc m msgs email tok opts))"
  using assms
  by (auto simp: generate_chat_def Let_def not_less split: sum.splits)

lemma build_payload_messages:
  "p_messages (build_payload svc m msgs opts) =
     map (\<lambda>msg. (role_value_lower (role msg), content msg)) msgs"
  by (simp add: build_payload_def Let_def split: option.splits)

text \<open>
  C4 as the code has it. Nothing in \<open>generate_chat\<close> inspects the length of the message
  list: with an empty list the payload carries an empty message array, the provider is
  called with it whenever the price is not positive or a token accompanies the price, and
  the outcome is the provider's exception or the normalized reply.
\<close>

theorem empty_messages_reach_provider:
  assumes "pricing svc = Some price" and "price \<le> 0 \<or> token_given tok"
  shows "p_messages (build_payload svc m [] opts) = [] \<and>
         UpstreamCall (build_payload svc m [] opts) \<in>
           set (snd (generate_chat w svc m [] email tok opts)) \<and>
         fst (generate_chat w svc m [] email tok opts) =
           (case make_chat_request w (build_payload svc m [] opts) of
              Inl e \<Rightarrow> Inl e
            | Inr reply \<Rightarrow>
                normalize_response w m reply (if 0 < price \<and> truthy reply then price else 0))"
  using generate_chat_result[OF assms] by (simp add: build_payload_messages)

lemma replying_world_request: "make_chat_request (replying_world reply) p = Inr reply"
  by (simp add: replying_world_def)


lemma build_payload_plain:
  "build_payload (service_of cfg) m msgs None =
     \<lparr>p_model = ''deepseek/deepseek-chat'',
      p_messages = map (\<lambda>msg. (role_value_lower (role msg), content msg)) msgs,
      p_max_tokens = Some 1000, p_temperature = None, p_top_p = None, p_stop = None,
      p_num_predict = None\<rparr>"
  by (simp add: build_payload_def validate_model_def service_of_def Let_def)

lemma normalize_chat_reply_stop:
  "normalize_response (replying_world reply) m (chat_reply ''stop'') c =
     Inr \<lparr>response_id = 7, model = m,
          message = \<lparr>role = ASSISTANT, content = JStr ''hi''\<rparr>, finish_reason = Some STOP,
          usage = \<lparr>prompt_tokens = JNum 0, completion_tokens = JNum 0, total_tokens = JNum 0\<rparr>,
          provider_info = [(''provider'', ''deepseek''), (''model'', m)], cost = c\<rparr>"
  by (simp add: normalize_response_def bind_exn_def chat_reply_def replying_world_def
        map_finish_reason_def)

theorem empty_messages_reach_provider_witness:
  "fst (generate_chat (replying_world (chat_reply ''stop'')) (service_of free_config)
          ''deepseek-chat'' [] ''a@b.c'' None None) =
     Inr \<lparr>response_id = 7, model = ''deepseek-chat'',
          message = \<lparr>role = ASSISTANT, content = JStr ''hi''\<rparr>, finish_reason = Some STOP,
          usage = \<lparr>prompt_tokens = JNum 0, completion_tokens = JNum 0, total_tokens = JNum 0\<rparr>,
          provider_info = [(''provider'', ''deepseek''), (''model'', ''deepseek-chat'')],
          cost = 0\<rparr>"
proof -
  have le: "(0::real) \<le> 0 \<or> token_given None" by simp
  have up: "make_chat_request (replying_world (chat_reply ''stop''))
              (build_payload (service_of free_config) ''deepseek-chat'' [] None) =
            Inr (chat_reply ''stop'')"
    by (simp add: replying_world_def)
  show ?thesis
    using empty_messages_reach_provider[OF pricing_free_service le,
            of "''deepseek-chat''" None "replying_world (chat_reply ''stop'')" "''a@b.c''"]
    by (simp add: up normalize_chat_reply_stop)
qed

text \<open>
  C4 as the spec words it fails on a free service: the call with no message is sent
  upstream and returns a response.
\<close>

theorem empty_messages_counterexample:
  "generate_chat (replying_world (chat_reply ''stop'')) (service_of free_config)
     ''deepseek-chat'' [] ''a@b.c'' None None =
   (Inr \<lparr>response_id = 7, model = ''deepseek-chat'',
         message = \<lparr>role = ASSISTANT, content = JStr ''hi''\<rparr>, finish_reason = Some STOP,
         usage = \<lparr>prompt_tokens = JNum 0, completion_tokens = JNum 0, total_tokens = JNum 0\<rparr>,
         provider_info = [(''provider'', ''deepseek''), (''model'', ''deepseek-chat'')],
         cost = 0\<rparr>,
    [UpstreamCall \<lparr>p_model = ''deepseek/deepseek-chat'', p_messages = [],
                    p_max_tokens = Some 1000, p_temperature = None, p_top_p = None,
                    p_stop = None, p_num_predict = None\<rparr>])"
proof -
  have z: "\<not> (0::real) < 0" by simp
  show ?thesis
    by (simp add: generate_chat_free[OF pricing_free_service z] replying_world_request
          normalize_chat_reply_stop build_payload_plain)
qed

lemma pricing_without_metadata: "metadata (config svc) = None \<Longrightarrow> pricing svc = Some 0"
  by (simp add: pricing_def)

text \<open>
  C5 on the code. Without a metadata file the price is 0. With a metadata file that has
  no chat entry the loop ends without a \<open>return\<close>: the property yields \<open>None\<close>, and
  the comparison with 0 in \<open>generate_chat\<close> raises before anything else happens.
\<close>

theorem pricing_without_chat_entry:
  "pricing (service_of search_only_config) = None \<and>
   generate_chat (replying_world (chat_reply ''stop'')) (service_of search_only_config)
     ''deepseek-chat'' hello ''a@b.c'' None None =
   (Inl (TypeError (quoted ''>'' @ '' not supported between instances of '' @
                    quoted ''NoneType'' @ '' and '' @ quoted ''int'')), [])"
proof -
  have p: "pricing (service_of search_only_config) = None"
    by (simp add: pricing_def service_of_def search_only_config_def)
  then show ?thesis by (simp add: generate_chat_def Let_def)
qed


lemma map_finish_reason_unknown:
  "fr \<notin> {''stop'', ''length'', ''content_filter''} \<Longrightarrow> map_finish_reason fr = None"
  by (simp add: map_finish_reason_def)

lemma normalize_response_unknown_finish_reason:
  assumes "map_of kvs ''choices'' = Some (JList (JObj ckvs # others))"
    and "map_of ckvs ''finish_reason'' = Some (JStr fr)"
    and "fr \<notin> {''stop'', ''length'', ''content_filter''}"
    and "py_get (JObj kvs) ''usage'' (JObj []) = Inr (JObj ukvs)"
    and "py_get (JObj ckvs) ''message'' (JObj []) = Inr (JObj mkvs)"
  shows "normalize_response w m (JObj kvs) c =
     Inr \<lparr>response_id = uuid4 w, model = m,
          message = \<lparr>role = ASSISTANT,
                     content = (case map_of mkvs ''content'' of None \<Rightarrow> JStr [] | Some v \<Rightarrow> v)\<rparr>,
          finish_reason = None,
          usage = \<lparr>prompt_tokens =
                     (case map_of ukvs ''prompt_tokens'' of None \<Rightarrow> JNum 0 | Some v \<Rightarrow> v),
                   completion_tokens =
                     (case map_of ukvs ''completion_tokens'' of None \<Rightarrow> JNum 0 | Some v \<Rightarrow> v),
                   total_tokens =
                     (case map_of ukvs ''total_tokens'' of None \<Rightarrow> JNum 0 | Some v \<Rightarrow> v)\<rparr>,
          provider_info = [(''provider'', ''deepseek''), (''model'', m)], cost = c\<rparr>"
proof -
  have fr: "map_finish_reason fr = None"
    using assms(3) by (rule map_finish_reason_unknown)
  have u: "(case map_of kvs ''usage'' of None \<Rightarrow> JObj [] | Some v \<Rightarrow> v) = JObj ukvs"
    using assms(4) by simp
  have g: "(case map_of ckvs ''message'' of None \<Rightarrow> JObj [] | Some v \<Rightarrow> v) = JObj mkvs"
    using assms(5) by simp
  show ?thesis
    by (simp add: normalize_response_def bind_exn_def assms(1,2) u g fr)
qed

text \<open>
  C9 as the code has it. A finish-reason string outside the table is mapped to \<open>None\<close>:
  the response carries no finish reason, and the call does not fail on it. A usage field
  the provider left out is 0.
\<close>

theorem unknown_finish_reason_absent:
  assumes "pricing svc = Some price" and "price \<le> 0 \<or> token_given tok"
    and "make_chat_request w (build_payload svc m msgs opts) = Inr (JObj kvs)"
    and "map_of kvs ''choices'' = Some (JList (JObj ckvs # others))"
    and "map_of ckvs ''finish_reason'' = Some (JStr fr)"
    and "fr \<notin> {''stop'', ''length'', ''content_filter''}"
    and "py_get (JObj kvs) ''usage'' (JObj []) = Inr (JObj ukvs)"
    and "py_get (JObj ckvs) ''message'' (JObj []) = Inr (JObj mkvs)"
  shows "fst (generate_chat w svc m msgs email tok opts) =
     Inr \<lparr>response_id = uuid4 w, model = m,
          message = \<lparr>role = ASSISTANT,
                     content = (case map_of mkvs ''content'' of None \<Rightarrow> JStr [] | Some v \<Rightarrow> v)\<rparr>,
          finish_reason = None,
          usage = \<lparr>prompt_tokens =
                     (case map_of ukvs ''prompt_tokens'' of None \<Rightarrow> JNum 0 | Some v \<Rightarrow> v),
                   completion_tokens =
                     (case map_of ukvs ''completion_tokens'' of None \<Rightarrow> JNum 0 | Some v \<Rightarrow> v),
                   total_tokens =
                     (case map_of ukvs ''total_tokens'' of None \<Rightarrow> JNum 0 | Some v \<Rightarrow> v)\<rparr>,
          provider_info = [(''provider'', ''deepseek''), (''model'', m)],
          cost = (if 0 < price then price else 0)\<rparr>"
proof -
  have ne: "truthy (JObj kvs)" using assms(4) by (cases kvs) simp_all
  have "fst (generate_chat w svc m msgs email tok opts) =
          normalize_response w m (JObj kvs) (if 0 < price then price else 0)"
    using generate_chat_result(1)[OF assms(1,2), where w = w and m = m and msgs = msgs and opts = opts and email = email] assms(3) ne by simp
  then show ?thesis
    by (simp only: normalize_response_unknown_finish_reason[OF assms(4,5,6,7,8)])
qed

theorem unknown_finish_reason_absent_witness:
  "fst (generate_chat (replying_world (chat_reply ''tool_calls'')) (service_of free_config)
          ''deepseek-chat'' hello ''a@b.c'' None None) =
     Inr \<lparr>response_id = 7, model = ''deepseek-chat'',
          message = \<lparr>role = ASSISTANT, content = JStr ''hi''\<rparr>, finish_reason = None,
          usage = \<lparr>prompt_tokens = JNum 0, completion_tokens = JNum 0, total_tokens = JNum 0\<rparr>,
          provider_info = [(''provider'', ''deepseek''), (''model'', ''deepseek-chat'')],
          cost = 0\<rparr>"
proof -
  have le: "(0::real) \<le> 0 \<or> token_given None" by simp
  have up: "make_chat_request (replying_world (chat_reply ''tool_calls''))
              (build_payload (service_of free_config) ''deepseek-chat'' hello None) =
            Inr (JObj [(''choices'',
                   JList [JObj [(''message'', JObj [(''content'', JStr ''hi'')]),
                                (''finish_reason'', JStr ''tool_calls'')]])])"
    by (simp add: replying_world_request chat_reply_def)
  have ch: "map_of [(''choices'',
                   JList [JObj [(''message'', JObj [(''content'', JStr ''hi'')]),
                                (''finish_reason'', JStr ''tool_calls'')]])] ''choices'' =
            Some (JList (JObj [(''message'', JObj [(''content'', JStr ''hi'')]),
                               (''finish_reason'', JStr ''tool_calls'')] # []))"
    by simp
  have fr: "map_of [(''message'', JObj [(''content'', JStr ''hi'')]),
                    (''finish_reason'', JStr ''tool_calls'')] ''finish_reason'' =
            Some (JStr ''tool_calls'')"
    by simp
  have un: "''tool_calls'' \<notin> {''stop'', ''length'', ''content_filter''}" by simp
  have us: "py_get (JObj [(''choices'',
                   JList [JObj [(''message'', JObj [(''content'', JStr ''hi'')]),
                                (''finish_reason'', JStr ''tool_calls'')]])]) ''usage'' (JObj []) =
            Inr (JObj [])"
    by simp
  have ms: "py_get (JObj [(''message'', JObj [(''content'', JStr ''hi'')]),
                          (''finish_reason'', JStr ''tool_calls'')]) ''message'' (JObj []) =
            Inr (JObj [(''content'', JStr ''hi'')])"
    by simp
  show ?thesis
    using unknown_finish_reason_absent[OF pricing_free_service le up ch fr un us ms,
            of "''a@b.c''"]
    by (simp add: replying_world_def)
qed

text \<open>
  C9 as the spec words it fails when the provider ends with \<open>tool_calls\<close>: the response
  holds no finish reason at all.
\<close>

theorem unknown_finish_reason_counterexample:
  "generate_chat (replying_world (chat_reply ''tool_calls'')) (service_of free_config)
     ''deepseek-chat'' hello ''a@b.c'' None None =
   (Inr \<lparr>response_id = 7, model = ''deepseek-chat'',
         message = \<lparr>role = ASSISTANT, content = JStr ''hi''\<rparr>, finish_reason = None,
         usage = \<lparr>prompt_tokens = JNum 0, completion_tokens = JNum 0, total_tokens = JNum 0\<rparr>,
         provider_info = [(''provider'', ''deepseek''), (''model'', ''deepseek-chat'')],
         cost = 0\<rparr>,
    [UpstreamCall \<lparr>p_model = ''deepseek/deepseek-chat'', p_messages = [(''user'', ''hello'')],
                    p_max_tokens = Some 1000, p_temperature = None, p_top_p = None,
                    p_stop = None, p_num_predict = None\<rparr>])"
proof -
  have z: "\<not> (0::real) < 0" by simp
  have n: "normalize_response (replying_world (chat_reply ''tool_calls'')) ''deepseek-chat''
             (chat_reply ''tool_calls'') 0 =
           Inr \<lparr>response_id = 7, model = ''deepseek-chat'',
         message = \<lparr>role = ASSISTANT, content = JStr ''hi''\<rparr>, finish_reason = None,
         usage = \<lparr>prompt_tokens = JNum 0, completion_tokens = JNum 0, total_tokens = JNum 0\<rparr>,
         provider_info = [(''provider'', ''deepseek''), (''model'', ''deepseek-chat'')],
         cost = 0\<rparr>"
    by (simp add: normalize_response_def bind_exn_def chat_reply_def replying_world_def
          map_finish_reason_def)
  show ?thesis
    by (simp add: generate_chat_free[OF pricing_free_service z] replying_world_request n
          build_payload_plain hello_def)
qed

text \<open>
  C10 as the code has it. A priced call with a token whose provider returns an empty
  (false) value leaves the transaction unconfirmed. When that value is the empty JSON
  object the call returns a response of cost 0 with every field at its default; any other
  empty value (\<open>null\<close>, \<open>false\<close>, 0, the empty string, the empty array) has no \<open>get\<close>,
  and the call raises an AttributeError.
\<close>

theorem priced_empty_reply_unconfirmed:
  assumes "pricing svc = Some price" and "0 < price" and "tok = Some t" and "t \<noteq> []"
    and "make_chat_request w (build_payload svc m msgs opts) = Inr reply"
    and "\<not> truthy reply"
  shows "snd (generate_chat w svc m msgs email tok opts) =
           [OpenTransaction email price t (app_name svc) ''/chat'',
            UpstreamCall (build_payload svc m msgs opts), ExitTransaction] \<and>
         (reply = JObj [] \<longrightarrow>
            fst (generate_chat w svc m msgs email tok opts) =
              Inr \<lparr>response_id = uuid4 w, model = m,
                   message = \<lparr>role = ASSISTANT, content = JStr []\<rparr>, finish_reason = None,
                   usage = \<lparr>prompt_tokens = JNum 0, completion_tokens = JNum 0,
                            total_tokens = JNum 0\<rparr>,
                   provider_info = [(''provider'', ''deepseek''), (''model'', m)],
                   cost = 0\<rparr>) \<and>
         (reply \<noteq> JObj [] \<longrightarrow>
            (\<exists>msg. fst (generate_chat w svc m msgs email tok opts) = Inl (AttributeError msg)))"
proof -
  have eq: "generate_chat w svc m msgs email tok opts =
      (normalize_response w m reply 0,
       [OpenTransaction email price t (app_name svc) ''/chat'',
        UpstreamCall (build_payload svc m msgs opts), ExitTransaction])"
    using assms by (simp add: generate_chat_priced)
  have "reply \<noteq> JObj [] \<Longrightarrow> \<exists>msg. normalize_response w m reply 0 = Inl (AttributeError msg)"
    using assms(6) by (intro normalize_response_not_object falsy_cases)
  then show ?thesis
    using eq by (auto simp: normalize_response_empty_object)
qed

theorem priced_empty_reply_unconfirmed_witness:
  "generate_chat (replying_world (JObj [])) (service_of paid_config)
     ''deepseek-chat'' hello ''a@b.c'' (Some ''abc'') None =
   (Inr \<lparr>response_id = 7, model = ''deepseek-chat'',
         message = \<lparr>role = ASSISTANT, content = JStr []\<rparr>, finish_reason = None,
         usage = \<lparr>prompt_tokens = JNum 0, completion_tokens = JNum 0, total_tokens = JNum 0\<rparr>,
         provider_info = [(''provider'', ''deepseek''), (''model'', ''deepseek-chat'')],
         cost = 0\<rparr>,
    [OpenTransaction ''a@b.c'' 2 ''abc'' ''router'' ''/chat'',
     UpstreamCall (build_payload (service_of paid_config) ''deepseek-chat'' hello None),
     ExitTransaction])"
proof -
  have pos: "(0::real) < 2" by simp
  have ne: "''abc'' \<noteq> []" by simp
  have fl: "\<not> truthy (JObj [])" by simp
  have app: "app_name (service_of paid_config) = ''router''"
    by (simp add: service_of_def paid_config_def)
  have id: "uuid4 (replying_world (JObj [])) = 7" by (simp add: replying_world_def)
  note c = priced_empty_reply_unconfirmed[OF pricing_paid_service pos refl ne
             replying_world_request fl, where m = "''deepseek-chat''" and email = "''a@b.c''"]
  have "fst (generate_chat (replying_world (JObj [])) (service_of paid_config)
     ''deepseek-chat'' hello ''a@b.c'' (Some ''abc'') None) =
     Inr \<lparr>response_id = 7, model = ''deepseek-chat'',
         message = \<lparr>role = ASSISTANT, content = JStr []\<rparr>, finish_reason = None,
         usage = \<lparr>prompt_tokens = JNum 0, completion_tokens = JNum 0, total_tokens = JNum 0\<rparr>,
         provider_info = [(''provider'', ''deepseek''), (''model'', ''deepseek-chat'')],
         cost = 0\<rparr>"
    using c id by simp
  moreover have "snd (generate_chat (replying_world (JObj [])) (service_of paid_config)
     ''deepseek-chat'' hello ''a@b.c'' (Some ''abc'') None) =
     [OpenTransaction ''a@b.c'' 2 ''abc'' ''router'' ''/chat'',
      UpstreamCall (build_payload (service_of paid_config) ''deepseek-chat'' hello None),
      ExitTransaction]"
    using c app by simp
  ultimately show ?thesis by (simp only: prod_eq_iff fst_conv snd_conv simp_thms)
qed

text \<open>
  C10 as the spec words it fails when the provider returns the empty array: the call
  raises.
\<close>

theorem priced_empty_reply_counterexample:
  "generate_chat (replying_world (JList [])) (service_of paid_config)
     ''deepseek-chat'' hello ''a@b.c'' (Some ''abc'') None =
   (Inl (AttributeError (quoted ''list'' @ '' object has no attribute '' @ quoted ''get'')),
    [OpenTransaction ''a@b.c'' 2 ''abc'' ''router'' ''/chat'',
     UpstreamCall \<lparr>p_model = ''deepseek/deepseek-chat'', p_messages = [(''user'', ''hello'')],
                    p_max_tokens = Some 1000, p_temperature = None, p_top_p = None,
                    p_stop = None, p_num_predict = None\<rparr>,
     ExitTransaction])"
proof -
  have pos: "(0::real) < 2" by simp
  have ne: "''abc'' \<noteq> []" by simp
  have app: "app_name (service_of paid_config) = ''router''"
    by (simp add: service_of_def paid_config_def)
  have n: "normalize_response (replying_world (JList [])) ''deepseek-chat'' (JList []) 0 =
           Inl (AttributeError (quoted ''list'' @ '' object has no attribute '' @ quoted ''get''))"
    by (simp add: normalize_response_def bind_exn_def)
  show ?thesis
    by (simp add: generate_chat_priced[OF pricing_paid_service pos refl ne]
          replying_world_request n app build_payload_plain hello_def)
qed

section \<open>Facts about the router\<close>

text \<open>
  C8. A router built from a configuration that disables chat refuses
  \<open>generate_chat\<close> with the error that says chat is not enabled (a
  \<open>NotImplementedError\<close> in the code) and reaches no method of a service; the same
  holds for \<open>search_documents\<close> when search is disabled. With both disabled the
  router is built without a service.
\<close>

theorem disabled_capability_not_invoked:
  "(\<not> enable_chat cfg \<and> SyftLLMRouter_init key create_search cfg = Inr r \<longrightarrow>
      chat_service r = None \<and>
      SyftLLMRouter_generate_chat w r m msgs email tok opts =
        (Inl (NotImplementedError ''Chat functionality is not enabled''), [], [])) \<and>
   (\<not> enable_search cfg \<and> SyftLLMRouter_init key create_search cfg = Inr r \<longrightarrow>
      search_service r = None \<and>
      SyftLLMRouter_search_documents search_documents r email query sopts tok =
        (Inl (NotImplementedError ''Search functionality is not enabled''), [])) \<and>
   (\<not> enable_chat cfg \<and> \<not> enable_search cfg \<longrightarrow>
      SyftLLMRouter_init key create_search cfg =
        Inr \<lparr>router_config = cfg, chat_service = None, search_service = None\<rparr>)"
  by (auto simp: SyftLLMRouter_init_def SyftLLMRouter_generate_chat_def
        SyftLLMRouter_search_documents_def bind_exn_def split: sum.splits if_splits)

theorem disabled_capability_not_invoked_witness:
  "SyftLLMRouter_generate_chat (replying_world (chat_reply ''stop''))
     \<lparr>router_config = free_config\<lparr>enable_chat := False\<rparr>, chat_service = None,
      search_service = (None :: unit option)\<rparr>
     ''deepseek-chat'' hello ''a@b.c'' None None =
     (Inl (NotImplementedError ''Chat functionality is not enabled''), [], []) \<and>
   SyftLLMRouter_search_documents (\<lambda>svc e q (so :: unit option) t. (Inr () :: exn + unit))
     \<lparr>router_config = free_config\<lparr>enable_chat := False\<rparr>, chat_service = None,
      search_service = (None :: unit option)\<rparr>
     ''a@b.c'' ''query'' None None =
     (Inl (NotImplementedError ''Search functionality is not enabled''), [])"
proof -
  have c: "\<not> enable_chat (free_config\<lparr>enable_chat := False\<rparr>)" by simp
  have s: "\<not> enable_search (free_config\<lparr>enable_chat := False\<rparr>)"
    by (simp add: free_config_def)
  note t = disabled_capability_not_invoked[where cfg = "free_config\<lparr>enable_chat := False\<rparr>"
      and key = None and create_search = "\<lambda>c. (Inr () :: exn + unit)"
      and r = "\<lparr>router_config = free_config\<lparr>enable_chat := False\<rparr>, chat_service = None,
                search_service = (None :: unit option)\<rparr>"]
  have i: "SyftLLMRouter_init None (\<lambda>c. (Inr () :: exn + unit))
             (free_config\<lparr>enable_chat := False\<rparr>) =
           Inr \<lparr>router_config = free_config\<lparr>enable_chat := False\<rparr>, chat_service = None,
                search_service = None\<rparr>"
    using t[THEN conjunct2, THEN conjunct2] c s by blast
  show ?thesis
    using t[THEN conjunct1] t[THEN conjunct2, THEN conjunct1] c s i by blast
qed

section \<open>Facts about the service manager\<close>


































end
